theory Spec2Isabelle
  imports Complex_Main "HOL-Library.Word"
begin

section \<open>The request pipeline of \<open>src/api/routes.py\<close>\<close>

text \<open>
  The module has one operation, the handler \<open>audio_to_document(audio, syllabus)\<close>: a
  \<open>try\<close> body of six stages, three \<open>except\<close> clauses and a \<open>finally\<close> block. The
  handler is embedded as a function from the outcomes of the calls it makes (the
  \<open>world\<close>) to its response and the chronological list of the calls and log lines it
  performed (the trace). Exceptions are values; the locals of the handler that the
  \<open>finally\<close> block reads (\<open>temp_path\<close>, \<open>success\<close>) are threaded through a record.
\<close>

subsection \<open>Exceptions\<close>

text \<open>
  The \<open>except\<close> clauses of the handler tell four kinds of exception apart, in this
  order: \<open>ValueError\<close>, \<open>ExternalAPIError\<close>, any other \<open>Exception\<close>, and what
  \<open>except Exception\<close> does not catch (a \<open>BaseException\<close> outside \<open>Exception\<close>, such as
  the cancellation of the task at an \<open>await\<close>). The string is \<open>str(e)\<close>.
\<close>

datatype exn =
    ValueError string
  | ExternalAPIError string
  | OtherException string
  | BaseExceptionOnly string

fun str :: "exn \<Rightarrow> string" where
  "str (ValueError m) = m"
| "str (ExternalAPIError m) = m"
| "str (OtherException m) = m"
| "str (BaseExceptionOnly m) = m"

subsection \<open>Floats\<close>

text \<open>
  A Python \<open>float\<close> is an IEEE 754 binary64 number. \<open>Finite s m e\<close> is the number
  \<open>(-1)^s * m * 2^e\<close>, written with an odd \<open>m\<close> (or as \<open>Finite s 0 0\<close> for the zero of
  sign \<open>s\<close>); the handler only subtracts floats and rounds one to two decimals.
\<close>

datatype pyfloat = Finite bool nat int | Infinity bool | NaN

text \<open>The number of binary digits of \<open>n\<close>.\<close>

fun bit_length :: "nat \<Rightarrow> nat" where
  "bit_length n = (if n = 0 then 0 else Suc (bit_length (n div 2)))"

declare bit_length.simps [simp del]

text \<open>The representation with an odd significand.\<close>

fun strip_zeros :: "nat \<Rightarrow> int \<Rightarrow> nat \<times> int" where
  "strip_zeros m e =
     (if m = 0 then (0, 0)
      else if even m then strip_zeros (m div 2) (e + 1)
      else (m, e))"

declare strip_zeros.simps [simp del]

text \<open>The integer nearest to \<open>n / d\<close>, a tie going to the even one.\<close>

definition round_half_even :: "nat \<Rightarrow> nat \<Rightarrow> nat" where
  "round_half_even n d =
     (let q = n div d; r = n mod d
      in if d < 2 * r \<or> (2 * r = d \<and> odd q) then q + 1 else q)"

text \<open>\<open>n / d\<close> divided by \<open>2^e\<close>, as a fraction.\<close>

definition scaled :: "nat \<Rightarrow> nat \<Rightarrow> int \<Rightarrow> nat \<times> nat" where
  "scaled n d e = (if e < 0 then (n * 2 ^ nat (- e), d) else (n, d * 2 ^ nat e))"

text \<open>
  The exponent of the last of the 53 significant bits of \<open>n / d\<close>, not below that of
  the subnormal numbers.
\<close>

definition double_exponent :: "nat \<Rightarrow> nat \<Rightarrow> int" where
  "double_exponent n d =
     (let e0 = int (bit_length n) - int (bit_length d) - 53;
          (n0, d0) = scaled n d e0
      in max (if 2 ^ 53 \<le> n0 div d0 then e0 + 1 else e0) (- 1074))"

text \<open>
  Rounding to nearest, ties to even: the float for the fraction \<open>n / d\<close> with sign \<open>s\<close>,
  an infinity beyond the largest finite float.
\<close>

definition nearest_double :: "bool \<Rightarrow> nat \<Rightarrow> nat \<Rightarrow> pyfloat" where
  "nearest_double s n d =
     (if n = 0 then Finite s 0 0
      else
        let e = double_exponent n d;
            (n1, d1) = scaled n d e;
            q = round_half_even n1 d1
        in if 1024 < int (bit_length q) + e then Infinity s
           else (case strip_zeros q e of (m, e') \<Rightarrow> Finite s m e'))"

text \<open>
  \<open>x - y\<close> on floats: the exact difference, rounded once. A difference of zero is
  positive unless \<open>x\<close> is the negative and \<open>y\<close> the positive zero.
\<close>

fun float_sub :: "pyfloat \<Rightarrow> pyfloat \<Rightarrow> pyfloat" where
  "float_sub NaN y = NaN"
| "float_sub (Infinity a) NaN = NaN"
| "float_sub (Finite s m e) NaN = NaN"
| "float_sub (Infinity a) (Infinity b) = (if a = b then NaN else Infinity a)"
| "float_sub (Infinity a) (Finite s m e) = Infinity a"
| "float_sub (Finite s m e) (Infinity b) = Infinity (\<not> b)"
| "float_sub (Finite s1 m1 e1) (Finite s2 m2 e2) =
     (let e = min e1 e2;
          a = (if s1 then - 1 else 1) * int m1 * 2 ^ nat (e1 - e);
          b = (if s2 then - 1 else 1) * int m2 * 2 ^ nat (e2 - e);
          d = a - b
      in if d = 0 then Finite (m1 = 0 \<and> m2 = 0 \<and> s1 \<and> \<not> s2) 0 0
         else if 0 \<le> e then nearest_double (d < 0) (nat \<bar>d\<bar> * 2 ^ nat e) 1
         else nearest_double (d < 0) (nat \<bar>d\<bar>) (2 ^ nat (- e)))"

text \<open>
  \<open>round(x, 2)\<close> on a float, as CPython computes it: the decimal numeral of \<open>x\<close> with
  two digits after the point, correctly rounded with ties to even, is read back as the
  nearest float. An infinity and a NaN round to themselves, and the sign is kept.
\<close>

fun py_round2 :: "pyfloat \<Rightarrow> pyfloat" where
  "py_round2 NaN = NaN"
| "py_round2 (Infinity s) = Infinity s"
| "py_round2 (Finite s m e) =
     nearest_double s
       (if 0 \<le> e then 100 * m * 2 ^ nat e else round_half_even (100 * m) (2 ^ nat (- e)))
       100"

text \<open>The magnitude \<open>m * 2^e\<close> of a finite float, as a real number.\<close>

definition dyadic :: "nat \<Rightarrow> int \<Rightarrow> real" where
  "dyadic m e = real m * 2 powi e"

subsection \<open>Data\<close>

type_synonym bytes = "8 word list"

text \<open>
  The mapping returned by \<open>generate_pedagogical_score\<close>: each of the keys \<open>score\<close> and
  \<open>reasoning\<close> is present (\<open>Some\<close>) or absent (\<open>None\<close>), with values of the types the
  response model declares.
\<close>

record score_data =
  score :: "int option"
  reasoning :: "string option"

text \<open>\<open>d.get(key, default)\<close> on one key of the mapping.\<close>

definition dict_get :: "'a option \<Rightarrow> 'a \<Rightarrow> 'a" where
  "dict_get entry dflt = (case entry of None \<Rightarrow> dflt | Some v \<Rightarrow> v)"

text \<open>
  Modelled from the spec: \<open>AnalysisResponse\<close> and \<open>SuccessResponse\<close> of
  \<open>models.responses\<close> are not in the source; the spec gives the success envelope as
  \<open>{request_id: string, data: {analysis: string, pedagogical_score: int,
  score_reasoning: string, processing_time_seconds: float}}\<close>.
\<close>

record analysis_response =
  analysis :: string
  pedagogical_score :: int
  score_reasoning :: string
  processing_time_seconds :: pyfloat

record success_response =
  request_id :: string
  data :: analysis_response

text \<open>
  What the handler hands back to the framework: the returned \<open>SuccessResponse\<close>, the
  raised \<open>HTTPException(status_code, detail)\<close>, or an exception no clause caught.
\<close>

datatype response =
    Success success_response
  | HTTPException nat string
  | Uncaught exn

fun is_success :: "response \<Rightarrow> bool" where
  "is_success (Success r) = True"
| "is_success (HTTPException c d) = False"
| "is_success (Uncaught e) = False"

subsection \<open>Trace\<close>

datatype level = INFO | ERROR

text \<open>The keyword arguments of a log call. \<open>LSeconds2f x\<close> is \<open>f"{x:.2f}s"\<close>.\<close>

datatype logval =
    LStr string
  | LStrOpt "string option"
  | LNat nat
  | LIntOpt "int option"
  | LBool bool
  | LSeconds2f pyfloat

datatype event =
    Log level string "(string \<times> logval) list"
  | Validate_audio_file
  | Create_temp_file string
  | Audio_read
  | File_write string bytes
  | Track_enter string string
  | Track_exit string string
  | Transcribe_audio string
  | Generate_charter_compliant_output string string
  | Generate_pedagogical_score string string string
  | Retention_apply string
  | Record_request pyfloat bool string

fun is_log :: "event \<Rightarrow> bool" where
  "is_log (Log l m fs) = True"
| "is_log _ = False"

fun is_create :: "event \<Rightarrow> bool" where
  "is_create (Create_temp_file suffix) = True"
| "is_create _ = False"

fun is_destroy :: "event \<Rightarrow> bool" where
  "is_destroy (Retention_apply p) = True"
| "is_destroy _ = False"

fun is_record_request :: "event \<Rightarrow> bool" where
  "is_record_request (Record_request d ok rid) = True"
| "is_record_request _ = False"

fun is_engine_call :: "event \<Rightarrow> bool" where
  "is_engine_call (Transcribe_audio p) = True"
| "is_engine_call (Generate_charter_compliant_output t s) = True"
| "is_engine_call (Generate_pedagogical_score a t s) = True"
| "is_engine_call _ = False"

subsection \<open>The calls the handler makes\<close>

text \<open>
  The upload: \<open>audio.filename\<close> and the outcome of \<open>await audio.read()\<close>.
\<close>

record upload =
  filename :: "string option"
  read :: "exn + bytes"

text \<open>
  The outcome of every other call of one request: a value, or the exception raised.
  \<open>sanitize_for_logging\<close> is the function of \<open>middleware.privacy\<close>, not in the source.
  The three clock readings (\<open>time.time()\<close>, a float) are those of lines 32, 84 and 118.
\<close>

record world =
  uuid4 :: string
  time_start :: pyfloat
  time_response :: pyfloat
  time_final :: pyfloat
  validate_audio_file :: "exn + unit"
  create_temp_file :: "exn + string"
  file_write :: "exn + unit"
  transcribe_audio :: "exn + string"
  generate_charter_compliant_output :: "exn + string"
  generate_pedagogical_score :: "exn + score_data"
  sanitize_for_logging :: "string \<Rightarrow> string"

text \<open>The locals of the handler that outlive the \<open>try\<close> body, and the trace so far.\<close>

record locals =
  temp_path :: "string option"
  success :: bool
  trace :: "event list"

definition emit :: "event \<Rightarrow> locals \<Rightarrow> locals" where
  "emit ev s = s\<lparr>trace := trace s @ [ev]\<rparr>"

text \<open>
  Modelled from the spec: \<open>StructuredLogger\<close> is not in the source; by the spec a log
  call appends a structured line and never fails the pipeline.
\<close>

definition logger_info :: "string \<Rightarrow> (string \<times> logval) list \<Rightarrow> locals \<Rightarrow> locals" where
  "logger_info msg kwargs s = emit (Log INFO msg kwargs) s"

definition logger_error :: "string \<Rightarrow> (string \<times> logval) list \<Rightarrow> locals \<Rightarrow> locals" where
  "logger_error msg kwargs s = emit (Log ERROR msg kwargs) s"

text \<open>
  Modelled from the spec: \<open>track_operation\<close> of \<open>middleware.observability\<close> is not in
  the source; as a telemetry observer it is entered, the operation runs, it is left,
  and the operation's result or exception is passed on as it is.
\<close>

definition track_operation ::
  "string \<Rightarrow> string \<Rightarrow> event \<Rightarrow> exn + 'a \<Rightarrow> locals \<Rightarrow> (exn + 'a) \<times> locals" where
  "track_operation name rid call outcome s =
     (outcome, emit (Track_exit name rid) (emit call (emit (Track_enter name rid) s)))"

subsection \<open>The \<open>try\<close> body, stage by stage\<close>

text \<open>Lines 37 to 41.\<close>

definition validation_stage ::
  "world \<Rightarrow> upload \<Rightarrow> string \<Rightarrow> locals \<Rightarrow> (exn + unit) \<times> locals" where
  "validation_stage w audio rid s0 =
     (let s1 = logger_info ''Received analysis request''
                 [(''request_id'', LStr rid), (''filename'', LStrOpt (filename audio))] s0;
          s2 = emit Validate_audio_file s1
      in case validate_audio_file w of
           Inl e \<Rightarrow> (Inl e, s2)
         | Inr u \<Rightarrow>
             (Inr (), logger_info ''File validation passed'' [(''request_id'', LStr rid)] s2))"

text \<open>Lines 44 to 51.\<close>

definition storage_stage ::
  "world \<Rightarrow> upload \<Rightarrow> string \<Rightarrow> locals \<Rightarrow> (exn + string) \<times> locals" where
  "storage_stage w audio rid s0 =
     (let s1 = emit (Create_temp_file ''.mp3'') s0
      in case create_temp_file w of
           Inl e \<Rightarrow> (Inl e, s1)
         | Inr p \<Rightarrow>
             (let s2 = emit Audio_read (s1\<lparr>temp_path := Some p\<rparr>)
              in case read audio of
                   Inl e \<Rightarrow> (Inl e, s2)
                 | Inr content \<Rightarrow>
                     (let s3 = emit (File_write p content) s2
                      in case file_write w of
                           Inl e \<Rightarrow> (Inl e, s3)
                         | Inr u \<Rightarrow>
                             (Inr p, logger_info ''File saved temporarily''
                                       [(''request_id'', LStr rid),
                                        (''size_bytes'', LNat (length content))] s3))))"

text \<open>Lines 54 to 61.\<close>

definition transcription_stage ::
  "world \<Rightarrow> string \<Rightarrow> string \<Rightarrow> locals \<Rightarrow> (exn + string) \<times> locals" where
  "transcription_stage w p rid s0 =
     (case track_operation ''transcription'' rid (Transcribe_audio p) (transcribe_audio w) s0 of
        (Inl e, s1) \<Rightarrow> (Inl e, s1)
      | (Inr transcript, s1) \<Rightarrow>
          (Inr transcript,
           logger_info ''Transcription completed''
             [(''request_id'', LStr rid),
              (''transcript_preview'', LStr (sanitize_for_logging w transcript))] s1))"

text \<open>Lines 64 to 71.\<close>

definition analysis_stage ::
  "world \<Rightarrow> string \<Rightarrow> string \<Rightarrow> string \<Rightarrow> locals \<Rightarrow> (exn + string) \<times> locals" where
  "analysis_stage w transcript syllabus rid s0 =
     (case track_operation ''analysis'' rid
             (Generate_charter_compliant_output transcript syllabus)
             (generate_charter_compliant_output w) s0 of
        (Inl e, s1) \<Rightarrow> (Inl e, s1)
      | (Inr analysis_text, s1) \<Rightarrow>
          (Inr analysis_text,
           logger_info ''Analysis completed''
             [(''request_id'', LStr rid),
              (''analysis_preview'', LStr (sanitize_for_logging w analysis_text))] s1))"

text \<open>Lines 74 to 81.\<close>

definition scoring_stage ::
  "world \<Rightarrow> string \<Rightarrow> string \<Rightarrow> string \<Rightarrow> string \<Rightarrow> locals \<Rightarrow> (exn + score_data) \<times> locals" where
  "scoring_stage w analysis_text transcript syllabus rid s0 =
     (case track_operation ''scoring'' rid
             (Generate_pedagogical_score analysis_text transcript syllabus)
             (generate_pedagogical_score w) s0 of
        (Inl e, s1) \<Rightarrow> (Inl e, s1)
      | (Inr sd, s1) \<Rightarrow>
          (Inr sd,
           logger_info ''Scoring completed''
             [(''request_id'', LStr rid), (''score'', LIntOpt (score sd))] s1))"

text \<open>Lines 84 to 95.\<close>

definition response_stage ::
  "world \<Rightarrow> string \<Rightarrow> score_data \<Rightarrow> string \<Rightarrow> locals \<Rightarrow> (exn + success_response) \<times> locals" where
  "response_stage w analysis_text sd rid s0 =
     (let processing_time = float_sub (time_response w) (time_start w);
          response_data =
            \<lparr>analysis = analysis_text,
             pedagogical_score = dict_get (score sd) 50,
             score_reasoning = dict_get (reasoning sd) ''Score generated'',
             processing_time_seconds = py_round2 processing_time\<rparr>
      in (Inr \<lparr>request_id = rid, data = response_data\<rparr>, s0\<lparr>success := True\<rparr>))"

definition try_body ::
  "world \<Rightarrow> upload \<Rightarrow> string \<Rightarrow> string \<Rightarrow> locals \<Rightarrow> (exn + success_response) \<times> locals" where
  "try_body w audio syllabus rid s0 =
     (case validation_stage w audio rid s0 of
        (Inl e, s1) \<Rightarrow> (Inl e, s1)
      | (Inr u, s1) \<Rightarrow>
     (case storage_stage w audio rid s1 of
        (Inl e, s2) \<Rightarrow> (Inl e, s2)
      | (Inr p, s2) \<Rightarrow>
     (case transcription_stage w p rid s2 of
        (Inl e, s3) \<Rightarrow> (Inl e, s3)
      | (Inr transcript, s3) \<Rightarrow>
     (case analysis_stage w transcript syllabus rid s3 of
        (Inl e, s4) \<Rightarrow> (Inl e, s4)
      | (Inr analysis_text, s4) \<Rightarrow>
     (case scoring_stage w analysis_text transcript syllabus rid s4 of
        (Inl e, s5) \<Rightarrow> (Inl e, s5)
      | (Inr sd, s5) \<Rightarrow> response_stage w analysis_text sd rid s5)))))"

subsection \<open>The \<open>except\<close> clauses and the \<open>finally\<close> block\<close>

text \<open>Lines 97 to 110: the first clause whose class matches handles the exception.\<close>

fun except_clauses :: "string \<Rightarrow> exn \<Rightarrow> locals \<Rightarrow> response \<times> locals" where
  "except_clauses rid (ValueError m) s =
     (HTTPException 400 (str (ValueError m)),
      logger_error ''Validation error''
        [(''request_id'', LStr rid), (''error'', LStr (str (ValueError m)))] s)"
| "except_clauses rid (ExternalAPIError m) s =
     (HTTPException 502 (''External service error: '' @ str (ExternalAPIError m)),
      logger_error ''External API error''
        [(''request_id'', LStr rid), (''error'', LStr (str (ExternalAPIError m)))] s)"
| "except_clauses rid (OtherException m) s =
     (HTTPException 500 ''Internal server error'',
      logger_error ''Unexpected error''
        [(''request_id'', LStr rid), (''error'', LStr (str (OtherException m)))] s)"
| "except_clauses rid (BaseExceptionOnly m) s = (Uncaught (BaseExceptionOnly m), s)"

text \<open>
  Lines 112 to 126. \<open>if temp_path:\<close> holds for a path that is neither \<open>None\<close> nor the
  empty string. Modelled from the spec: \<open>DataRetentionPolicy.apply\<close> and
  \<open>metrics_tracker.record_request\<close> are not in the source; by the spec the destruction
  of the file never fails towards the caller, and neither does telemetry.
\<close>

definition finally_block :: "world \<Rightarrow> string \<Rightarrow> locals \<Rightarrow> locals" where
  "finally_block w rid s0 =
     (let s1 = (case temp_path s0 of
                  None \<Rightarrow> s0
                | Some p \<Rightarrow> if p \<noteq> [] then emit (Retention_apply p) s0 else s0);
          processing_time = float_sub (time_final w) (time_start w);
          s2 = emit (Record_request processing_time (success s1) rid) s1
      in logger_info ''Request completed''
           [(''request_id'', LStr rid), (''success'', LBool (success s2)),
            (''total_time'', LSeconds2f processing_time)] s2)"

subsection \<open>The handler\<close>

definition audio_to_document :: "world \<Rightarrow> upload \<Rightarrow> string \<Rightarrow> response \<times> event list" where
  "audio_to_document w audio syllabus =
     (let rid = uuid4 w;
          s0 = \<lparr>temp_path = None, success = False, trace = []\<rparr>
      in case try_body w audio syllabus rid s0 of
           (Inr r, s1) \<Rightarrow> (Success r, trace (finally_block w rid s1))
         | (Inl e, s1) \<Rightarrow>
             (case except_clauses rid e s1 of
                (resp, s2) \<Rightarrow> (resp, trace (finally_block w rid s2))))"

subsection \<open>Which call of the \<open>try\<close> body raises first\<close>

datatype stage =
    Validation
  | Temp_file_creation
  | Upload_read
  | Temp_file_write
  | Transcription
  | Analysis
  | Scoring

text \<open>
  The calls of the \<open>try\<close> body in the order in which it makes them; the first one that
  raises ends the body with its exception.
\<close>

definition first_failure :: "world \<Rightarrow> upload \<Rightarrow> (stage \<times> exn) option" where
  "first_failure w audio =
     (case validate_audio_file w of Inl e \<Rightarrow> Some (Validation, e) | Inr u \<Rightarrow>
     (case create_temp_file w of Inl e \<Rightarrow> Some (Temp_file_creation, e) | Inr p \<Rightarrow>
     (case read audio of Inl e \<Rightarrow> Some (Upload_read, e) | Inr c \<Rightarrow>
     (case file_write w of Inl e \<Rightarrow> Some (Temp_file_write, e) | Inr u \<Rightarrow>
     (case transcribe_audio w of Inl e \<Rightarrow> Some (Transcription, e) | Inr t \<Rightarrow>
     (case generate_charter_compliant_output w of Inl e \<Rightarrow> Some (Analysis, e) | Inr a \<Rightarrow>
     (case generate_pedagogical_score w of Inl e \<Rightarrow> Some (Scoring, e) | Inr sd \<Rightarrow>
        None)))))))"

fun is_engine_stage :: "stage \<Rightarrow> bool" where
  "is_engine_stage Transcription = True"
| "is_engine_stage Analysis = True"
| "is_engine_stage Scoring = True"
| "is_engine_stage _ = False"

subsection \<open>What the log can tell apart\<close>

text \<open>
  Two outcomes of an engine call that the log lines cannot tell apart: the same
  exception, or two texts with the same sanitized form.
\<close>

fun same_preview :: "(string \<Rightarrow> string) \<Rightarrow> exn + string \<Rightarrow> exn + string \<Rightarrow> bool" where
  "same_preview sanitize (Inr x) (Inr y) = (sanitize x = sanitize y)"
| "same_preview sanitize (Inl e) (Inl e') = (e = e')"
| "same_preview sanitize (Inr x) (Inl e') = False"
| "same_preview sanitize (Inl e) (Inr y) = False"

section \<open>The resilient external caller\<close>

text \<open>
  Modelled from the spec: the circuit breaker, the retries and \<open>ExternalAPIError\<close> live
  in \<open>middleware.failure_containment\<close> and behind the three engine functions, none of
  which is in the source. What follows is section 4.3 of the spec, one state per
  engine. The spec counts failures "within a sliding window" but gives the window no
  parameter and states the transition as \<open>failure_count \<ge> threshold\<close>; the counter
  here is the number of failures since the last success. Time is in whole seconds.
\<close>

datatype circuit = Closed | Open | Half_open

record circuit_state =
  circuit :: circuit
  failure_count :: nat
  last_failure :: nat
  invocations :: nat

text \<open>
  Modelled from the spec: the configuration options it enumerates,
  \<open>{max_attempts, backoff_base, failure_threshold, cooldown_seconds}\<close>.
\<close>

record caller_config =
  max_attempts :: nat
  backoff_base :: nat
  failure_threshold :: nat
  cooldown_seconds :: nat

text \<open>Modelled from the spec: "Initial state: closed."\<close>

definition initial_state :: circuit_state where
  "initial_state = \<lparr>circuit = Closed, failure_count = 0, last_failure = 0, invocations = 0\<rparr>"

text \<open>
  Modelled from the spec: one invocation of the engine operation returns, or fails (by
  timeout or exception)
  with a cause, in a transient or a permanent failure class. The operation is given
  by the outcome of its \<open>k\<close>-th invocation.
\<close>

datatype failure_class = Transient | Permanent

datatype 'a outcome = Returned 'a | Failed failure_class string

datatype external_error = Circuit_open | Exhausted string string

text \<open>
  Modelled from the spec:
  "On timeout or on an exception from the operation, increment the failure counter; if
  the counter crosses a configured threshold, transition the circuit to open and record
  the timestamp"; "half-open \<open>\<rightarrow>\<close> (probe fails) \<open>\<rightarrow>\<close> open".
\<close>

definition on_failure :: "caller_config \<Rightarrow> nat \<Rightarrow> circuit_state \<Rightarrow> circuit_state" where
  "on_failure cfg now st =
     st\<lparr>circuit :=
          (if circuit st = Half_open \<or> failure_threshold cfg \<le> failure_count st + 1
           then Open else circuit st),
        failure_count := failure_count st + 1,
        last_failure := now\<rparr>"

text \<open>
  Modelled from the spec:
  "On eventual success: reset the failure counter for that engine (closed state) and,
  if previously half-open, transition to closed."
\<close>

definition on_success :: "circuit_state \<Rightarrow> circuit_state" where
  "on_success st = st\<lparr>circuit := Closed, failure_count := 0\<rparr>"

text \<open>
  Modelled from the spec: one invocation of the operation at time \<open>now\<close>, with its
  bookkeeping.
\<close>

definition attempt ::
  "caller_config \<Rightarrow> (nat \<Rightarrow> 'a outcome) \<Rightarrow> nat \<Rightarrow> circuit_state \<Rightarrow> 'a outcome \<times> circuit_state" where
  "attempt cfg operation now st =
     (let st1 = st\<lparr>invocations := invocations st + 1\<rparr>
      in case operation (invocations st) of
           Returned v \<Rightarrow> (Returned v, on_success st1)
         | Failed cls cause \<Rightarrow> (Failed cls cause, on_failure cfg now st1))"

text \<open>
  Modelled from the spec:
  "Up to N attempts per call with exponential backoff between attempts; retries only
  for transient failure classes"; "on exhaustion of retries: fail with
  \<open>ExternalError(engine_id, last_cause)\<close>". The first argument counts the retries left,
  the second the attempts made.
\<close>

fun attempts ::
  "nat \<Rightarrow> nat \<Rightarrow> caller_config \<Rightarrow> string \<Rightarrow> (nat \<Rightarrow> 'a outcome) \<Rightarrow> nat \<Rightarrow> circuit_state
     \<Rightarrow> (external_error + 'a) \<times> circuit_state" where
  "attempts 0 i cfg engine_id operation now st =
     (case attempt cfg operation now st of
        (Returned v, st1) \<Rightarrow> (Inr v, st1)
      | (Failed cls cause, st1) \<Rightarrow> (Inl (Exhausted engine_id cause), st1))"
| "attempts (Suc r) i cfg engine_id operation now st =
     (case attempt cfg operation now st of
        (Returned v, st1) \<Rightarrow> (Inr v, st1)
      | (Failed Permanent cause, st1) \<Rightarrow> (Inl (Exhausted engine_id cause), st1)
      | (Failed Transient cause, st1) \<Rightarrow>
          attempts r (Suc i) cfg engine_id operation (now + backoff_base cfg * 2 ^ i) st1)"

text \<open>
  Modelled from the spec:
  "Before dispatch, check engine's Circuit State: if open and the cool-down window has
  not elapsed, fail immediately with \<open>ExternalError(circuit_open)\<close> without invoking the
  operation"; once the cool-down has elapsed the circuit is half-open and the call is
  the probe.
\<close>

definition call ::
  "caller_config \<Rightarrow> string \<Rightarrow> (nat \<Rightarrow> 'a outcome) \<Rightarrow> nat \<Rightarrow> circuit_state
     \<Rightarrow> (external_error + 'a) \<times> circuit_state" where
  "call cfg engine_id operation now st =
     (if circuit st = Open \<and> now < last_failure st + cooldown_seconds cfg
      then (Inl Circuit_open, st)
      else attempts (max_attempts cfg - 1) 0 cfg engine_id operation now
             (if circuit st = Open then st\<lparr>circuit := Half_open\<rparr> else st))"

text \<open>The state after invocations at the times \<open>ts\<close>, one after the other.\<close>

definition after_attempts ::
  "caller_config \<Rightarrow> (nat \<Rightarrow> 'a outcome) \<Rightarrow> nat list \<Rightarrow> circuit_state \<Rightarrow> circuit_state" where
  "after_attempts cfg operation ts st = fold (\<lambda>t s. snd (attempt cfg operation t s)) ts st"

fun is_failed :: "'a outcome \<Rightarrow> bool" where
  "is_failed (Failed cls cause) = True"
| "is_failed (Returned v) = False"

subsection \<open>A concrete request\<close>

text \<open>
  The scenario of the spec: a valid upload, the transcription returns \<open>hello world\<close>,
  the analysis \<open>ok\<close>, the scoring \<open>{score: 80, reasoning: "clear objectives"}\<close>. The
  sanitizer of the example keeps the first five characters. The clock reads 10.0,
  12.375 and 13.0.
\<close>

definition example_world :: world where
  "example_world =
     \<lparr>uuid4 = ''req-1'', time_start = Finite False 5 1,
      time_response = Finite False 99 (- 3), time_final = Finite False 13 0,
      validate_audio_file = Inr (), create_temp_file = Inr ''/tmp/a.mp3'',
      file_write = Inr (), transcribe_audio = Inr ''hello world'',
      generate_charter_compliant_output = Inr ''ok'',
      generate_pedagogical_score = Inr \<lparr>score = Some 80, reasoning = Some ''clear objectives''\<rparr>,
      sanitize_for_logging = take 5\<rparr>"

definition example_upload :: upload where
  "example_upload = \<lparr>filename = Some ''a.mp3'', read = Inr [1, 2, 3]\<rparr>"

text \<open>
  A caller configured to trip after three failures and to cool down for thirty
  seconds, and an engine that fails three times before it answers.
\<close>

definition example_config :: caller_config where
  "example_config =
     \<lparr>max_attempts = 2, backoff_base = 1, failure_threshold = 3, cooldown_seconds = 30\<rparr>"

definition example_operation :: "nat \<Rightarrow> string outcome" where
  "example_operation k =
     (if k < 3 then Failed Transient ''timeout'' else Returned ''hello world'')"

section \<open>Properties of the pipeline\<close>

subsection \<open>Auxiliary facts\<close>

lemmas stage_defs = validation_stage_def storage_stage_def transcription_stage_def
  analysis_stage_def scoring_stage_def response_stage_def track_operation_def
  logger_info_def logger_error_def emit_def

lemmas handler_defs = Let_def audio_to_document_def try_body_def finally_block_def stage_defs

text \<open>Every request takes exactly one of eight paths through the \<open>try\<close> body.\<close>

lemma pipeline_cases:
  fixes w :: world and audio :: upload
  obtains
    (validating) e where "validate_audio_file w = Inl e"
  | (creating) e where "validate_audio_file w = Inr ()" "create_temp_file w = Inl e"
  | (reading) e p where "validate_audio_file w = Inr ()" "create_temp_file w = Inr p"
      "read audio = Inl e"
  | (writing) e p c where "validate_audio_file w = Inr ()" "create_temp_file w = Inr p"
      "read audio = Inr c" "file_write w = Inl e"
  | (transcribing) e p c where "validate_audio_file w = Inr ()" "create_temp_file w = Inr p"
      "read audio = Inr c" "file_write w = Inr ()" "transcribe_audio w = Inl e"
  | (analysing) e p c t where "validate_audio_file w = Inr ()" "create_temp_file w = Inr p"
      "read audio = Inr c" "file_write w = Inr ()" "transcribe_audio w = Inr t"
      "generate_charter_compliant_output w = Inl e"
  | (scoring) e p c t a where "validate_audio_file w = Inr ()" "create_temp_file w = Inr p"
      "read audio = Inr c" "file_write w = Inr ()" "transcribe_audio w = Inr t"
      "generate_charter_compliant_output w = Inr a" "generate_pedagogical_score w = Inl e"
  | (complete) p c t a sd where "validate_audio_file w = Inr ()" "create_temp_file w = Inr p"
      "read audio = Inr c" "file_write w = Inr ()" "transcribe_audio w = Inr t"
      "generate_charter_compliant_output w = Inr a" "generate_pedagogical_score w = Inr sd"
  apply (cases "validate_audio_file w"; simp)
  apply (cases "create_temp_file w"; simp)
  apply (cases "read audio"; simp)
  apply (cases "file_write w"; simp)
  apply (cases "transcribe_audio w"; simp)
  apply (cases "generate_charter_compliant_output w"; simp)
  apply (cases "generate_pedagogical_score w"; simp)
  done

text \<open>When the \<open>try\<close> body raises, the matching clause and then the \<open>finally\<close> block run.\<close>

lemma handler_raise:
  assumes "try_body w audio syllabus (uuid4 w)
             \<lparr>temp_path = None, success = False, trace = []\<rparr> = (Inl e, s)"
  shows "audio_to_document w audio syllabus =
     (fst (except_clauses (uuid4 w) e s),
      trace (finally_block w (uuid4 w) (snd (except_clauses (uuid4 w) e s))))"
  using assms by (simp add: audio_to_document_def Let_def split: prod.splits)

text \<open>\<open>first_failure\<close> names the exception with which the \<open>try\<close> body ends.\<close>

lemma first_failure_try_body:
  "first_failure w audio = Some (st, e) \<Longrightarrow> fst (try_body w audio syllabus rid s) = Inl e"
  by (cases rule: pipeline_cases [where w = w and audio = audio])
     (simp_all add: first_failure_def try_body_def stage_defs)

lemma first_failure_raises:
  assumes "first_failure w audio = Some (st, e)"
  obtains s where "try_body w audio syllabus (uuid4 w)
                     \<lparr>temp_path = None, success = False, trace = []\<rparr> = (Inl e, s)"
  using first_failure_try_body [OF assms] by (metis prod.collapse)

text \<open>Floats: evaluation on numerals, and what the rounding guarantees.\<close>

lemma bit_length_0: "bit_length 0 = 0"
  by (simp add: bit_length.simps)

lemma bit_length_1: "bit_length (Suc 0) = Suc 0"
  by (simp add: bit_length.simps [of "Suc 0"] bit_length_0)

lemma bit_length_numeral:
  "bit_length (numeral k) = Suc (bit_length (numeral k div 2))"
  by (subst bit_length.simps) simp

lemma strip_zeros_numeral:
  "strip_zeros (numeral k) e =
     (if even (numeral k :: nat) then strip_zeros (numeral k div 2) (e + 1) else (numeral k, e))"
  by (subst strip_zeros.simps) simp

lemma strip_zeros_1: "strip_zeros (Suc 0) e = (Suc 0, e)"
  by (subst strip_zeros.simps) simp

lemmas float_eval = bit_length_0 bit_length_1 bit_length_numeral strip_zeros_numeral
  strip_zeros_1 nearest_double_def double_exponent_def scaled_def round_half_even_def Let_def

lemma bit_length_bounds:
  "0 < n \<Longrightarrow> 2 ^ (bit_length n - 1) \<le> n \<and> n < 2 ^ bit_length n"
proof (induction n rule: bit_length.induct)
  case (1 n)
  show ?case
  proof (cases "n div 2 = 0")
    case True
    with "1.prems" have "n = Suc 0" by presburger
    then show ?thesis by (simp add: bit_length_1)
  next
    case False
    then have pos: "0 < n div 2" by simp
    from "1.prems" have n: "n \<noteq> 0" by simp
    define b where "b = bit_length (n div 2)"
    from "1.IH" [OF n pos]
    have ih: "2 ^ (b - 1) \<le> n div 2" "n div 2 < 2 ^ b"
      by (simp_all add: b_def)
    have bl: "bit_length n = Suc b"
      using n unfolding b_def by (subst bit_length.simps) simp
    have "0 < b"
      using pos unfolding b_def by (subst bit_length.simps) simp
    then have p: "(2::nat) ^ b = 2 * 2 ^ (b - 1)"
      by (cases b) simp_all
    have "2 * (n div 2) \<le> n" by simp
    with ih(1) p have lo: "2 ^ b \<le> n" by linarith
    have "n \<le> 2 * (n div 2) + 1" by presburger
    with ih(2) have hi: "n < 2 * 2 ^ b" by linarith
    show ?thesis using lo hi by (simp add: bl)
  qed
qed

lemma round_half_even_near:
  assumes "0 < d"
  shows "\<bar>real (round_half_even n d) - real n / real d\<bar> \<le> 1 / 2"
proof -
  define q where "q = n div d"
  define r where "r = n mod d"
  have n: "n = q * d + r" by (simp add: q_def r_def)
  have r: "r < d" using assms by (simp add: r_def)
  have dpos: "0 < real d" using assms by simp
  have quot: "real n / real d = real q + real r / real d"
    using assms by (simp add: n field_simps)
  show ?thesis
  proof (cases "d < 2 * r \<or> (2 * r = d \<and> odd q)")
    case True
    then have v: "round_half_even n d = q + 1"
      by (simp add: round_half_even_def Let_def q_def r_def)
    from True have "d \<le> 2 * r" by auto
    then have "real d \<le> 2 * real r" by (metis of_nat_le_iff of_nat_mult of_nat_numeral)
    then have lo: "1 / 2 \<le> real r / real d" using dpos by (simp add: field_simps)
    have hi: "real r / real d < 1" using r dpos by simp
    show ?thesis unfolding v quot using lo hi by simp
  next
    case False
    then have v: "round_half_even n d = q"
      by (simp add: round_half_even_def Let_def q_def r_def)
    from False have "2 * r \<le> d" by auto
    then have "2 * real r \<le> real d" by (metis of_nat_le_iff of_nat_mult of_nat_numeral)
    then have hi: "real r / real d \<le> 1 / 2" using dpos by (simp add: field_simps)
    have lo: "0 \<le> real r / real d" by simp
    show ?thesis unfolding v quot using lo hi by simp
  qed
qed

lemma strip_zeros_value:
  "strip_zeros m e = (m', e') \<Longrightarrow> dyadic m' e' = dyadic m e"
proof (induction m e rule: strip_zeros.induct)
  case (1 m e)
  show ?case
  proof (cases "m = 0")
    case True
    from "1.prems" have "m' = 0"
      unfolding True by (subst (asm) strip_zeros.simps) simp
    with True show ?thesis by (simp add: dyadic_def)
  next
    case False
    show ?thesis
    proof (cases "even m")
      case True
      from "1.prems" False True have "strip_zeros (m div 2) (e + 1) = (m', e')"
        by (subst (asm) strip_zeros.simps) simp
      from "1.IH" [OF False True this] have "dyadic m' e' = dyadic (m div 2) (e + 1)" .
      also have "\<dots> = real (m div 2) * (2 powi e * 2)"
        by (simp add: dyadic_def power_int_add)
      also have "\<dots> = real (2 * (m div 2)) * 2 powi e" by simp
      also have "2 * (m div 2) = m" using True by simp
      finally show ?thesis by (simp add: dyadic_def)
    next
      case odd: False
      from "1.prems" False odd have "m' = m \<and> e' = e"
        by (subst (asm) strip_zeros.simps) simp
      then show ?thesis by simp
    qed
  qed
qed

lemma powi_neg: "e < 0 \<Longrightarrow> (2::real) powi e = 1 / 2 ^ nat (- e)"
  by (simp add: power_int_def power_one_over)

lemma powi_nonneg: "0 \<le> e \<Longrightarrow> (2::real) powi e = 2 ^ nat e"
  by (simp add: power_int_def)

lemma scaled_ratio:
  assumes "0 < d" and "scaled n d e = (n1, d1)"
  shows "0 < d1 \<and> real n1 / real d1 = (real n / real d) / 2 powi e"
proof (cases "e < 0")
  case True
  with assms show ?thesis by (auto simp add: scaled_def powi_neg)
next
  case False
  with assms show ?thesis by (auto simp add: scaled_def powi_nonneg)
qed

lemma double_exponent_lower:
  assumes n: "0 < n" and d: "0 < d"
    and range: "- 1074 \<le> int (bit_length n) - int (bit_length d) - 53"
  shows "2 ^ 52 * 2 powi double_exponent n d \<le> real n / real d"
proof -
  define e0 where "e0 = int (bit_length n) - int (bit_length d) - 53"
  obtain n0 d0 where s0: "scaled n d e0 = (n0, d0)" by (cases "scaled n d e0")
  define x where "x = real n / real d"
  have de: "double_exponent n d = (if 2 ^ 53 \<le> n0 div d0 then e0 + 1 else e0)"
    using range s0 by (simp add: double_exponent_def Let_def e0_def)
  show ?thesis
  proof (cases "2 ^ 53 \<le> n0 div d0")
    case True
    then have e: "double_exponent n d = e0 + 1" by (simp add: de)
    from scaled_ratio [OF d s0] have d0: "0 < d0" and r0: "real n0 / real d0 = x / 2 powi e0"
      by (simp_all add: x_def)
    from True have "(2::real) ^ 53 \<le> real (n0 div d0)"
      by (metis of_nat_le_iff of_nat_numeral of_nat_power)
    also have "\<dots> \<le> real n0 / real d0" by (rule of_nat_div_le_of_nat)
    finally have "2 ^ 53 \<le> x / 2 powi e0" by (simp add: r0)
    then have "2 ^ 53 * 2 powi e0 \<le> x" by (simp add: field_simps)
    moreover have "(2::real) powi (e0 + 1) = 2 powi e0 * 2" by (simp add: power_int_add)
    ultimately show ?thesis by (simp add: e x_def)
  next
    case False
    then have e: "double_exponent n d = e0" by (simp add: de)
    from bit_length_bounds [OF n] have nlo: "2 ^ (bit_length n - 1) \<le> n" by simp
    from bit_length_bounds [OF d] have dhi: "d < 2 ^ bit_length d" by simp
    have bpos: "0 < bit_length n" using n by (subst bit_length.simps) simp
    have rn: "(2::real) ^ (bit_length n - 1) \<le> real n"
      using nlo by (metis of_nat_le_iff of_nat_numeral of_nat_power)
    have rd: "real d \<le> 2 ^ bit_length d"
      using dhi by (metis less_imp_le of_nat_le_iff of_nat_numeral of_nat_power)
    have dpos: "0 < real d" using d by simp
    have frac: "(2::real) ^ (bit_length n - 1) / 2 ^ bit_length d \<le> real n / real d"
      using rn rd dpos by (intro frac_le) simp_all
    have "e0 + 52 = int (bit_length n - 1) - int (bit_length d)"
      using bpos by (simp add: e0_def)
    then have "(2::real) powi (e0 + 52) = 2 powi (int (bit_length n - 1) - int (bit_length d))"
      by simp
    also have "\<dots> = 2 ^ (bit_length n - 1) / 2 ^ bit_length d"
      by (simp add: power_int_diff)
    finally have "2 ^ 52 * (2::real) powi e0 = 2 ^ (bit_length n - 1) / 2 ^ bit_length d"
      by (simp add: power_int_add mult.commute)
    with frac show ?thesis by (simp add: e)
  qed
qed

lemma nearest_double_accuracy:
  assumes n: "0 < n" and d: "0 < d"
    and range: "- 1074 \<le> int (bit_length n) - int (bit_length d) - 53"
    and res: "nearest_double s n d = Finite s' m' e'"
  shows "s' = s \<and> \<bar>dyadic m' e' - real n / real d\<bar> \<le> (real n / real d) / 2 ^ 53"
proof -
  define e1 where "e1 = double_exponent n d"
  obtain n1 d1 where s1: "scaled n d e1 = (n1, d1)" by (cases "scaled n d e1")
  define q where "q = round_half_even n1 d1"
  define x where "x = real n / real d"
  define P where "P = (2::real) powi e1"
  have Ppos: "0 < P" by (simp add: P_def)
  have "nearest_double s n d =
          (if 1024 < int (bit_length q) + e1 then Infinity s
           else (case strip_zeros q e1 of (m, e') \<Rightarrow> Finite s m e'))"
    using n s1 by (simp add: nearest_double_def Let_def e1_def q_def)
  with res have "s' = s" and strip: "strip_zeros q e1 = (m', e')"
    by (auto split: if_splits prod.splits)
  from strip_zeros_value [OF strip] have val: "dyadic m' e' = real q * P"
    by (simp add: dyadic_def P_def)
  from scaled_ratio [OF d s1] have d1: "0 < d1" and r1: "real n1 / real d1 = x / P"
    by (simp_all add: x_def P_def)
  from round_half_even_near [OF d1, of n1] have near: "\<bar>real q - x / P\<bar> \<le> 1 / 2"
    by (simp add: q_def r1)
  have "\<bar>real q * P - x\<bar> = P * \<bar>real q - x / P\<bar>"
    using Ppos by (simp add: abs_mult [symmetric] field_simps)
  with near Ppos have err: "\<bar>real q * P - x\<bar> \<le> P / 2"
    by (simp add: field_simps)
  from double_exponent_lower [OF n d range] have "2 ^ 52 * P \<le> x"
    by (simp add: P_def e1_def x_def)
  then have "P / 2 \<le> x / 2 ^ 53" by simp
  with err val \<open>s' = s\<close> show ?thesis by (simp add: x_def)
qed

lemma py_round2_semantics:
  assumes "py_round2 (Finite s m e) = Finite s' m' e'"
  shows "\<exists>k::nat. \<bar>real k - 100 * dyadic m e\<bar> \<le> 1 / 2
           \<and> s' = s \<and> \<bar>dyadic m' e' - real k / 100\<bar> \<le> (real k / 100) / 2 ^ 53"
proof -
  define k where
    "k = (if 0 \<le> e then 100 * m * 2 ^ nat e else round_half_even (100 * m) (2 ^ nat (- e)))"
  have res: "nearest_double s k 100 = Finite s' m' e'"
    using assms by (simp add: k_def)
  have k: "\<bar>real k - 100 * dyadic m e\<bar> \<le> 1 / 2"
  proof (cases "0 \<le> e")
    case True
    then show ?thesis by (simp add: k_def dyadic_def powi_nonneg)
  next
    case False
    then have "e < 0" by simp
    with round_half_even_near [of "2 ^ nat (- e)" "100 * m"] show ?thesis
      by (simp add: k_def dyadic_def powi_neg)
  qed
  show ?thesis
  proof (cases "k = 0")
    case True
    with res have "s' = s \<and> m' = 0" by (simp add: nearest_double_def)
    with True k show ?thesis by (intro exI [of _ k]) (simp add: dyadic_def)
  next
    case False
    then have kpos: "0 < k" by simp
    have b100: "bit_length 100 = 7" by (simp add: bit_length_numeral bit_length_1)
    have "0 < bit_length k" using kpos by (subst bit_length.simps) simp
    then have range: "- 1074 \<le> int (bit_length k) - int (bit_length 100) - 53"
      by (simp add: b100)
    from nearest_double_accuracy [OF kpos _ range res] k show ?thesis
      by (intro exI [of _ k]) simp
  qed
qed

text \<open>
  The clock readings 0.9999999999999999 and 3.125, and 0.3 and 2.675: the float
  differences are 2.125 and 2.375, both ties, rounded to the floats 2.12 and 2.38.
\<close>

lemma round_of_tie_down:
  "float_sub (Finite False 25 (- 3)) (Finite False 9007199254740991 (- 53))
     = Finite False 17 (- 3)
   \<and> py_round2 (Finite False 17 (- 3)) = Finite False 2386907802506363 (- 50)"
  by (simp add: float_eval)

lemma round_of_tie_up:
  "float_sub (Finite False 3011782250804019 (- 50)) (Finite False 5404319552844595 (- 54))
     = Finite False 19 (- 3)
   \<and> py_round2 (Finite False 19 (- 3)) = Finite False 2679641778285445 (- 50)"
  by (simp add: float_eval)

subsection \<open>The temporary file\<close>

text \<open>
  Claim C1. For every valid upload (one that passes validation so that a temp file
  path is assigned), the temp file is created exactly once and destroyed exactly once
  per request, with destruction executing on every exit path: success, external-call
  failure, or unexpected error. The path assigned is a non-empty string, which is what
  the guard \<open>if temp_path:\<close> of the \<open>finally\<close> block asks for; nothing is assumed of
  the calls that follow the creation.
\<close>

theorem temp_file_created_and_destroyed_once:
  assumes "validate_audio_file w = Inr ()" and "create_temp_file w = Inr p" and "p \<noteq> []"
  shows "filter is_create (snd (audio_to_document w audio syllabus)) = [Create_temp_file ''.mp3'']
       \<and> filter is_destroy (snd (audio_to_document w audio syllabus)) = [Retention_apply p]"
proof (cases rule: pipeline_cases [where w = w and audio = audio])
  case (validating e)
  with assms show ?thesis by simp
next
  case (creating e)
  with assms show ?thesis by simp
next
  case (reading e p)
  with assms show ?thesis by (cases e) (simp_all add: handler_defs)
next
  case (writing e p c)
  with assms show ?thesis by (cases e) (simp_all add: handler_defs)
next
  case (transcribing e p c)
  with assms show ?thesis by (cases e) (simp_all add: handler_defs)
next
  case (analysing e p c t)
  with assms show ?thesis by (cases e) (simp_all add: handler_defs)
next
  case (scoring e p c t a)
  with assms show ?thesis by (cases e) (simp_all add: handler_defs)
next
  case (complete p c t a sd)
  with assms show ?thesis by (simp add: handler_defs)
qed

text \<open>The transcription engine fails: the file is still created once and destroyed once.\<close>

theorem temp_file_created_and_destroyed_once_witness:
  "validate_audio_file (example_world\<lparr>transcribe_audio := Inl (ExternalAPIError ''timeout'')\<rparr>)
     = Inr ()
   \<and> create_temp_file (example_world\<lparr>transcribe_audio := Inl (ExternalAPIError ''timeout'')\<rparr>)
     = Inr ''/tmp/a.mp3''
   \<and> ''/tmp/a.mp3'' \<noteq> []
   \<and> filter is_create (snd (audio_to_document
        (example_world\<lparr>transcribe_audio := Inl (ExternalAPIError ''timeout'')\<rparr>)
        example_upload [])) = [Create_temp_file ''.mp3'']
   \<and> filter is_destroy (snd (audio_to_document
        (example_world\<lparr>transcribe_audio := Inl (ExternalAPIError ''timeout'')\<rparr>)
        example_upload [])) = [Retention_apply ''/tmp/a.mp3'']"
  using temp_file_created_and_destroyed_once
          [of "example_world\<lparr>transcribe_audio := Inl (ExternalAPIError ''timeout'')\<rparr>"
              "''/tmp/a.mp3''" example_upload "[]"]
  by (simp add: example_world_def)

subsection \<open>Telemetry\<close>

text \<open>
  Claim C2. For every request, regardless of which stage succeeds or fails,
  \<open>metrics_tracker.record_request\<close> is invoked exactly once, and the success flag it
  records is true if and only if the request produced a Success Envelope.
\<close>

theorem record_request_exactly_once:
  "filter is_record_request (snd (audio_to_document w audio syllabus)) =
     [Record_request (float_sub (time_final w) (time_start w))
        (is_success (fst (audio_to_document w audio syllabus))) (uuid4 w)]"
proof (cases rule: pipeline_cases [where w = w and audio = audio])
  case (validating e)
  then show ?thesis by (cases e) (simp_all add: handler_defs)
next
  case (creating e)
  then show ?thesis by (cases e) (simp_all add: handler_defs)
next
  case (reading e p)
  then show ?thesis by (cases e) (simp_all add: handler_defs)
next
  case (writing e p c)
  then show ?thesis by (cases e) (simp_all add: handler_defs)
next
  case (transcribing e p c)
  then show ?thesis by (cases e) (simp_all add: handler_defs)
next
  case (analysing e p c t)
  then show ?thesis by (cases e) (simp_all add: handler_defs)
next
  case (scoring e p c t a)
  then show ?thesis by (cases e) (simp_all add: handler_defs)
next
  case (complete p c t a sd)
  then show ?thesis by (simp add: handler_defs)
qed

text \<open>
  The scenario of the spec records one successful request of \<open>13.0 - 10.0 = 3.0\<close>
  seconds.
\<close>

theorem record_request_exactly_once_witness:
  "filter is_record_request (snd (audio_to_document example_world example_upload [])) =
     [Record_request (Finite False 3 0) True ''req-1'']
   \<and> is_success (fst (audio_to_document example_world example_upload []))"
proof -
  have ok: "is_success (fst (audio_to_document example_world example_upload []))"
    by (simp add: example_world_def example_upload_def handler_defs)
  have elapsed:
    "float_sub (time_final example_world) (time_start example_world) = Finite False 3 0"
    by (simp add: example_world_def float_eval)
  show ?thesis
    using record_request_exactly_once [of example_world example_upload "[]"] ok
    unfolding elapsed by (simp add: example_world_def)
qed

subsection \<open>Validation failures\<close>

text \<open>
  Claim C4. For every upload that fails validation (for example one that exceeds the
  configured size limit), the response is a client error (400) whose detail is the
  validation message, no temp file is ever created, and no external engine call is
  made. A validation failure is the \<open>ValueError\<close> that the first \<open>except\<close> clause
  handles as "input validation errors".
\<close>

theorem validation_failure_is_client_error:
  assumes "validate_audio_file w = Inl (ValueError m)"
  shows "fst (audio_to_document w audio syllabus) = HTTPException 400 m
       \<and> filter is_create (snd (audio_to_document w audio syllabus)) = []
       \<and> filter is_destroy (snd (audio_to_document w audio syllabus)) = []
       \<and> filter is_engine_call (snd (audio_to_document w audio syllabus)) = []"
  using assms by (simp add: handler_defs)

theorem validation_failure_is_client_error_witness:
  "validate_audio_file (example_world\<lparr>validate_audio_file := Inl (ValueError ''File too large'')\<rparr>)
     = Inl (ValueError ''File too large'')
   \<and> fst (audio_to_document
        (example_world\<lparr>validate_audio_file := Inl (ValueError ''File too large'')\<rparr>)
        example_upload []) = HTTPException 400 ''File too large''
   \<and> filter is_create (snd (audio_to_document
        (example_world\<lparr>validate_audio_file := Inl (ValueError ''File too large'')\<rparr>)
        example_upload [])) = []
   \<and> filter is_engine_call (snd (audio_to_document
        (example_world\<lparr>validate_audio_file := Inl (ValueError ''File too large'')\<rparr>)
        example_upload [])) = []"
  using validation_failure_is_client_error
          [of "example_world\<lparr>validate_audio_file := Inl (ValueError ''File too large'')\<rparr>"
              "''File too large''" example_upload "[]"]
  by (simp add: example_world_def)

subsection \<open>The success envelope\<close>

text \<open>
  Claim C5. For every scoring-engine result in which the score field is absent, the
  response's \<open>pedagogical_score\<close> equals 50, and for every result in which the
  reasoning field is absent, \<open>score_reasoning\<close> equals a non-empty default string;
  a field that is present is passed through unchanged.
\<close>

theorem score_defaults:
  assumes "first_failure w audio = None" and "generate_pedagogical_score w = Inr sd"
  shows "\<exists>r. fst (audio_to_document w audio syllabus) = Success r
          \<and> (score sd = None \<longrightarrow> pedagogical_score (data r) = 50)
          \<and> (reasoning sd = None \<longrightarrow>
                 score_reasoning (data r) = ''Score generated'' \<and> score_reasoning (data r) \<noteq> [])
          \<and> (\<forall>v. score sd = Some v \<longrightarrow> pedagogical_score (data r) = v)
          \<and> (\<forall>t. reasoning sd = Some t \<longrightarrow> score_reasoning (data r) = t)"
  using assms
  by (cases rule: pipeline_cases [where w = w and audio = audio])
     (simp_all add: first_failure_def handler_defs dict_get_def)

text \<open>A scoring result with neither field yields 50 and the default reasoning.\<close>

theorem score_defaults_witness:
  "first_failure
     (example_world\<lparr>generate_pedagogical_score := Inr \<lparr>score = None, reasoning = None\<rparr>\<rparr>)
     example_upload = None
   \<and> (\<exists>r. fst (audio_to_document
          (example_world\<lparr>generate_pedagogical_score := Inr \<lparr>score = None, reasoning = None\<rparr>\<rparr>)
          example_upload []) = Success r
        \<and> pedagogical_score (data r) = 50
        \<and> score_reasoning (data r) = ''Score generated'')"
  using score_defaults
          [of "example_world\<lparr>generate_pedagogical_score := Inr \<lparr>score = None, reasoning = None\<rparr>\<rparr>"
              example_upload "\<lparr>score = None, reasoning = None\<rparr>" "[]"]
  by (auto simp add: example_world_def example_upload_def first_failure_def)

text \<open>
  Claim C8. For every request in which all three engine calls succeed, the response is
  a Success Envelope \<open>{request_id, data: {analysis, pedagogical_score, score_reasoning,
  processing_time_seconds}}\<close>, where \<open>analysis\<close> is the analysis engine's output
  unchanged and \<open>processing_time_seconds\<close> is the elapsed time rounded to two decimals:
  \<open>round(x, 2)\<close> of the float difference \<open>x\<close> of the readings of lines 84 and 32. When
  both are finite, the result has the sign of \<open>x\<close>, and there is an integer \<open>k\<close> at most
  1/2 away from \<open>100 * |x|\<close> such that the magnitude of the result is \<open>k / 100\<close> up to a
  relative error of \<open>2^-53\<close>, the precision of a float.
\<close>

theorem success_envelope:
  assumes "first_failure w audio = None"
    and "transcribe_audio w = Inr t"
    and "generate_charter_compliant_output w = Inr a"
    and "generate_pedagogical_score w = Inr sd"
  shows "fst (audio_to_document w audio syllabus) =
           Success \<lparr>request_id = uuid4 w,
                    data = \<lparr>analysis = a,
                            pedagogical_score = dict_get (score sd) 50,
                            score_reasoning = dict_get (reasoning sd) ''Score generated'',
                            processing_time_seconds =
                              py_round2 (float_sub (time_response w) (time_start w))\<rparr>\<rparr>
       \<and> (\<forall>s m e s' m' e'.
             float_sub (time_response w) (time_start w) = Finite s m e \<longrightarrow>
             py_round2 (Finite s m e) = Finite s' m' e' \<longrightarrow>
             (\<exists>k::nat. \<bar>real k - 100 * dyadic m e\<bar> \<le> 1 / 2
                \<and> s' = s
                \<and> \<bar>dyadic m' e' - real k / 100\<bar> \<le> (real k / 100) / 2 ^ 53))"
proof -
  have "fst (audio_to_document w audio syllabus) =
           Success \<lparr>request_id = uuid4 w,
                    data = \<lparr>analysis = a,
                            pedagogical_score = dict_get (score sd) 50,
                            score_reasoning = dict_get (reasoning sd) ''Score generated'',
                            processing_time_seconds =
                              py_round2 (float_sub (time_response w) (time_start w))\<rparr>\<rparr>"
    using assms
    by (cases rule: pipeline_cases [where w = w and audio = audio])
       (simp_all add: first_failure_def handler_defs)
  then show ?thesis
    using py_round2_semantics by blast
qed

text \<open>
  The scenario of the spec with the clock reading 0.9999999999999999 at line 32 and
  3.125 at line 84: the float difference is 2.125 and the response carries the float
  2.12.
\<close>

theorem success_envelope_witness:
  "first_failure
     (example_world\<lparr>time_start := Finite False 9007199254740991 (- 53),
                    time_response := Finite False 25 (- 3)\<rparr>) example_upload = None
   \<and> fst (audio_to_document
        (example_world\<lparr>time_start := Finite False 9007199254740991 (- 53),
                       time_response := Finite False 25 (- 3)\<rparr>) example_upload []) =
       Success \<lparr>request_id = ''req-1'',
                data = \<lparr>analysis = ''ok'', pedagogical_score = 80,
                        score_reasoning = ''clear objectives'',
                        processing_time_seconds = Finite False 2386907802506363 (- 50)\<rparr>\<rparr>
   \<and> (\<exists>k::nat. \<bar>real k - 100 * dyadic 17 (- 3)\<bar> \<le> 1 / 2
         \<and> \<bar>dyadic 2386907802506363 (- 50) - real k / 100\<bar> \<le> (real k / 100) / 2 ^ 53)"
proof -
  define w where
    "w = example_world\<lparr>time_start := Finite False 9007199254740991 (- 53),
                      time_response := Finite False 25 (- 3)\<rparr>"
  have h: "first_failure w example_upload = None"
      "transcribe_audio w = Inr ''hello world''"
      "generate_charter_compliant_output w = Inr ''ok''"
      "generate_pedagogical_score w
         = Inr \<lparr>score = Some 80, reasoning = Some ''clear objectives''\<rparr>"
    by (simp_all add: w_def example_world_def example_upload_def first_failure_def)
  have elapsed: "float_sub (time_response w) (time_start w) = Finite False 17 (- 3)"
    by (simp add: w_def example_world_def float_eval)
  have rounded: "py_round2 (Finite False 17 (- 3)) = Finite False 2386907802506363 (- 50)"
    by (simp add: float_eval)
  note envelope = success_envelope [OF h, of "[]"]
  from envelope have
    "\<exists>k::nat. \<bar>real k - 100 * dyadic 17 (- 3)\<bar> \<le> 1 / 2
        \<and> \<bar>dyadic 2386907802506363 (- 50) - real k / 100\<bar> \<le> (real k / 100) / 2 ^ 53"
    using elapsed rounded by blast
  moreover from envelope have
    "fst (audio_to_document w example_upload []) =
       Success \<lparr>request_id = uuid4 w,
                data = \<lparr>analysis = ''ok'',
                        pedagogical_score =
                          dict_get (score \<lparr>score = Some 80,
                                            reasoning = Some ''clear objectives''\<rparr>) 50,
                        score_reasoning =
                          dict_get (reasoning \<lparr>score = Some 80,
                                                reasoning = Some ''clear objectives''\<rparr>)
                            ''Score generated'',
                        processing_time_seconds =
                          py_round2 (float_sub (time_response w) (time_start w))\<rparr>\<rparr>"
    by (rule conjunct1)
  then have
    "fst (audio_to_document w example_upload []) =
       Success \<lparr>request_id = ''req-1'',
                data = \<lparr>analysis = ''ok'', pedagogical_score = 80,
                        score_reasoning = ''clear objectives'',
                        processing_time_seconds = Finite False 2386907802506363 (- 50)\<rparr>\<rparr>"
    unfolding elapsed rounded by (simp add: dict_get_def w_def example_world_def)
  ultimately show ?thesis using h(1) by (simp add: w_def)
qed

subsection \<open>Error mapping\<close>

text \<open>
  Claim C6. For every request in which an external engine call fails (after the
  internal retry policy is exhausted), the response is a gateway-error envelope (502)
  whose detail carries the external error's cause. The failure of an engine call is
  the \<open>ExternalAPIError\<close> with which the call ends.
\<close>

theorem external_failure_is_gateway_error:
  assumes "first_failure w audio = Some (st, ExternalAPIError m)" and "is_engine_stage st"
  shows "fst (audio_to_document w audio syllabus) =
           HTTPException 502 (''External service error: '' @ m)"
proof -
  obtain s where "try_body w audio syllabus (uuid4 w)
                    \<lparr>temp_path = None, success = False, trace = []\<rparr>
                  = (Inl (ExternalAPIError m), s)"
    using assms(1) by (rule first_failure_raises)
  then show ?thesis by (simp add: handler_raise)
qed

text \<open>The analysis engine fails once the transcription has succeeded.\<close>

theorem external_failure_is_gateway_error_witness:
  "first_failure
     (example_world\<lparr>generate_charter_compliant_output := Inl (ExternalAPIError ''circuit_open'')\<rparr>)
     example_upload = Some (Analysis, ExternalAPIError ''circuit_open'')
   \<and> is_engine_stage Analysis
   \<and> fst (audio_to_document
        (example_world\<lparr>generate_charter_compliant_output := Inl (ExternalAPIError ''circuit_open'')\<rparr>)
        example_upload []) = HTTPException 502 ''External service error: circuit_open''"
proof -
  have ff: "first_failure
     (example_world\<lparr>generate_charter_compliant_output := Inl (ExternalAPIError ''circuit_open'')\<rparr>)
     example_upload = Some (Analysis, ExternalAPIError ''circuit_open'')"
    by (simp add: example_world_def example_upload_def first_failure_def)
  show ?thesis
    using external_failure_is_gateway_error [OF ff, of "[]"] ff by simp
qed

text \<open>
  Claim C7. For every request that fails with an error not matching a recognized class
  (an \<open>Exception\<close> that is neither a \<open>ValueError\<close> nor an \<open>ExternalAPIError\<close>), the
  response is a generic internal-error envelope (500) whose detail is a fixed string,
  whatever the text of the exception, while the cause is still logged.
\<close>

theorem unexpected_error_is_internal_error:
  assumes "first_failure w audio = Some (st, OtherException m)"
  shows "fst (audio_to_document w audio syllabus) = HTTPException 500 ''Internal server error''
       \<and> Log ERROR ''Unexpected error'' [(''request_id'', LStr (uuid4 w)), (''error'', LStr m)]
           \<in> set (snd (audio_to_document w audio syllabus))"
proof -
  obtain s where "try_body w audio syllabus (uuid4 w)
                    \<lparr>temp_path = None, success = False, trace = []\<rparr>
                  = (Inl (OtherException m), s)"
    using assms by (rule first_failure_raises)
  then show ?thesis
    by (simp add: handler_raise finally_block_def logger_info_def logger_error_def emit_def
          Let_def split: option.splits)
qed

text \<open>The write of the temporary file fails with an \<open>OSError\<close>.\<close>

theorem unexpected_error_is_internal_error_witness:
  "first_failure (example_world\<lparr>file_write := Inl (OtherException ''No space left on device'')\<rparr>)
     example_upload = Some (Temp_file_write, OtherException ''No space left on device'')
   \<and> fst (audio_to_document
        (example_world\<lparr>file_write := Inl (OtherException ''No space left on device'')\<rparr>)
        example_upload []) = HTTPException 500 ''Internal server error''
   \<and> Log ERROR ''Unexpected error''
        [(''request_id'', LStr ''req-1''), (''error'', LStr ''No space left on device'')]
       \<in> set (snd (audio_to_document
            (example_world\<lparr>file_write := Inl (OtherException ''No space left on device'')\<rparr>)
            example_upload []))"
proof -
  have ff: "first_failure
     (example_world\<lparr>file_write := Inl (OtherException ''No space left on device'')\<rparr>)
     example_upload = Some (Temp_file_write, OtherException ''No space left on device'')"
    by (simp add: example_world_def example_upload_def first_failure_def)
  have "uuid4 (example_world\<lparr>file_write := Inl (OtherException ''No space left on device'')\<rparr>)
          = ''req-1''"
    by (simp add: example_world_def)
  then show ?thesis
    using unexpected_error_is_internal_error [OF ff, of "[]"] ff by simp
qed

text \<open>
  Claim C10. For every request, any \<open>ValueError\<close> raised at any pipeline stage, not only
  during input validation but also one raised by the file write or by an external
  engine call, is mapped to a client-error (400) response carrying the exception's
  message, rather than to an upstream or internal error.
\<close>

theorem any_value_error_is_client_error:
  assumes "first_failure w audio = Some (st, ValueError m)"
  shows "fst (audio_to_document w audio syllabus) = HTTPException 400 m"
proof -
  obtain s where "try_body w audio syllabus (uuid4 w)
                    \<lparr>temp_path = None, success = False, trace = []\<rparr>
                  = (Inl (ValueError m), s)"
    using assms by (rule first_failure_raises)
  then show ?thesis by (simp add: handler_raise)
qed

text \<open>A \<open>ValueError\<close> from the scoring engine is answered with 400.\<close>

theorem any_value_error_is_client_error_witness:
  "first_failure
     (example_world\<lparr>generate_pedagogical_score := Inl (ValueError ''invalid literal'')\<rparr>)
     example_upload = Some (Scoring, ValueError ''invalid literal'')
   \<and> fst (audio_to_document
        (example_world\<lparr>generate_pedagogical_score := Inl (ValueError ''invalid literal'')\<rparr>)
        example_upload []) = HTTPException 400 ''invalid literal''"
proof -
  have ff: "first_failure
     (example_world\<lparr>generate_pedagogical_score := Inl (ValueError ''invalid literal'')\<rparr>)
     example_upload = Some (Scoring, ValueError ''invalid literal'')"
    by (simp add: example_world_def example_upload_def first_failure_def)
  show ?thesis
    using any_value_error_is_client_error [OF ff, of "[]"] ff by simp
qed

subsection \<open>Logging of user content\<close>

text \<open>
  Claim C9. For every request, every log event whose fields include user-originated
  content (the transcript or the analysis text) passes that content through the
  sanitizer before logging; the raw transcript and raw analysis are never logged
  verbatim. Stated as non-interference: the log lines of a request depend on the
  transcript and on the analysis only through their sanitized forms. Whatever the
  outcomes of the calls of a request, replacing the text that the transcription engine
  returns, or the text that the analysis engine returns, by one that the sanitizer
  maps to the same preview gives the same log lines.
\<close>

theorem logs_see_only_sanitized_content:
  assumes "same_preview (sanitize_for_logging w) (transcribe_audio w) transcription"
    and "same_preview (sanitize_for_logging w) (generate_charter_compliant_output w) analysed"
  shows "filter is_log (snd (audio_to_document
            (w\<lparr>transcribe_audio := transcription,
               generate_charter_compliant_output := analysed\<rparr>)
            audio syllabus))
       = filter is_log (snd (audio_to_document w audio syllabus))"
proof (cases rule: pipeline_cases [where w = w and audio = audio])
  case (validating e)
  then show ?thesis by (cases e) (simp_all add: handler_defs)
next
  case (creating e)
  then show ?thesis by (cases e) (simp_all add: handler_defs)
next
  case (reading e p)
  then show ?thesis by (cases e) (simp_all add: handler_defs)
next
  case (writing e p c)
  then show ?thesis by (cases e) (simp_all add: handler_defs)
next
  case (transcribing e p c)
  with assms(1) have "transcription = Inl e" by (cases transcription) simp_all
  with transcribing show ?thesis by (cases e) (simp_all add: handler_defs)
next
  case (analysing e p c t)
  with assms obtain t' where "transcription = Inr t'"
      "sanitize_for_logging w t' = sanitize_for_logging w t" "analysed = Inl e"
    by (cases transcription; cases analysed) simp_all
  with analysing show ?thesis by (cases e) (simp_all add: handler_defs)
next
  case (scoring e p c t a)
  with assms obtain t' a' where "transcription = Inr t'"
      "sanitize_for_logging w t' = sanitize_for_logging w t" "analysed = Inr a'"
      "sanitize_for_logging w a' = sanitize_for_logging w a"
    by (cases transcription; cases analysed) simp_all
  with scoring show ?thesis by (cases e) (simp_all add: handler_defs)
next
  case (complete p c t a sd)
  with assms obtain t' a' where "transcription = Inr t'"
      "sanitize_for_logging w t' = sanitize_for_logging w t" "analysed = Inr a'"
      "sanitize_for_logging w a' = sanitize_for_logging w a"
    by (cases transcription; cases analysed) simp_all
  with complete show ?thesis by (simp add: handler_defs)
qed

text \<open>
  The analysis engine fails after the transcription has succeeded: two transcripts
  with the same first five characters give the same log lines, which hold the preview
  \<open>hello\<close>.
\<close>

theorem logs_see_only_sanitized_content_witness:
  "same_preview (sanitize_for_logging
       (example_world\<lparr>generate_charter_compliant_output := Inl (ExternalAPIError ''timeout'')\<rparr>))
     (transcribe_audio
       (example_world\<lparr>generate_charter_compliant_output := Inl (ExternalAPIError ''timeout'')\<rparr>))
     (Inr ''hello there'')
   \<and> filter is_log (snd (audio_to_document
        (example_world\<lparr>generate_charter_compliant_output := Inl (ExternalAPIError ''timeout''),
                       transcribe_audio := Inr ''hello there''\<rparr>)
        example_upload []))
     = filter is_log (snd (audio_to_document
        (example_world\<lparr>generate_charter_compliant_output := Inl (ExternalAPIError ''timeout'')\<rparr>)
        example_upload []))
   \<and> Log INFO ''Transcription completed''
        [(''request_id'', LStr ''req-1''), (''transcript_preview'', LStr ''hello'')]
       \<in> set (snd (audio_to_document
            (example_world\<lparr>generate_charter_compliant_output := Inl (ExternalAPIError ''timeout'')\<rparr>)
            example_upload []))"
proof -
  define w where
    "w = example_world\<lparr>generate_charter_compliant_output := Inl (ExternalAPIError ''timeout'')\<rparr>"
  have h: "same_preview (sanitize_for_logging w) (transcribe_audio w) (Inr ''hello there'')"
      "same_preview (sanitize_for_logging w) (generate_charter_compliant_output w)
         (Inl (ExternalAPIError ''timeout''))"
    by (simp_all add: w_def example_world_def)
  have logged: "Log INFO ''Transcription completed''
        [(''request_id'', LStr ''req-1''), (''transcript_preview'', LStr ''hello'')]
       \<in> set (snd (audio_to_document w example_upload []))"
    by (simp add: w_def example_world_def example_upload_def handler_defs)
  have same: "w\<lparr>transcribe_audio := Inr ''hello there'',
               generate_charter_compliant_output := Inl (ExternalAPIError ''timeout'')\<rparr>
            = example_world\<lparr>generate_charter_compliant_output := Inl (ExternalAPIError ''timeout''),
                       transcribe_audio := Inr ''hello there''\<rparr>"
    by (simp add: w_def example_world_def)
  show ?thesis
    using logs_see_only_sanitized_content [OF h, of example_upload "[]"] h(1) logged
    by (simp add: same) (simp add: w_def)
qed

section \<open>Properties of the resilient external caller\<close>

lemma attempt_failed:
  "is_failed (operation (invocations st)) \<Longrightarrow>
     snd (attempt cfg operation now st) =
       on_failure cfg now (st\<lparr>invocations := invocations st + 1\<rparr>)"
  by (cases "operation (invocations st)") (simp_all add: attempt_def)

lemma after_attempts_snoc:
  "after_attempts cfg operation (ts @ [t]) st =
     snd (attempt cfg operation t (after_attempts cfg operation ts st))"
  by (simp add: after_attempts_def)

text \<open>
  From a closed circuit with no failure counted, failed invocations are counted one by
  one; the circuit opens with the one that reaches the threshold and stays open.
\<close>

lemma consecutive_failures:
  assumes "circuit st0 = Closed" and "failure_count st0 = 0"
    and "0 < failure_threshold cfg"
    and "\<forall>k < length ts. is_failed (operation (invocations st0 + k))"
  shows "failure_count (after_attempts cfg operation ts st0) = length ts
       \<and> invocations (after_attempts cfg operation ts st0) = invocations st0 + length ts
       \<and> circuit (after_attempts cfg operation ts st0) =
           (if failure_threshold cfg \<le> length ts then Open else Closed)
       \<and> (ts \<noteq> [] \<longrightarrow> last_failure (after_attempts cfg operation ts st0) = last ts)"
  using assms(4)
proof (induction ts rule: rev_induct)
  case Nil
  then show ?case using assms(1,2,3) by (simp add: after_attempts_def)
next
  case (snoc t ts)
  then have ih: "failure_count (after_attempts cfg operation ts st0) = length ts"
      "invocations (after_attempts cfg operation ts st0) = invocations st0 + length ts"
      "circuit (after_attempts cfg operation ts st0) =
         (if failure_threshold cfg \<le> length ts then Open else Closed)"
    by simp_all
  from snoc.prems have "is_failed (operation (invocations st0 + length ts))" by simp
  then have "is_failed (operation (invocations (after_attempts cfg operation ts st0)))"
    using ih(2) by simp
  then have "snd (attempt cfg operation t (after_attempts cfg operation ts st0)) =
      on_failure cfg t ((after_attempts cfg operation ts st0)
        \<lparr>invocations := invocations (after_attempts cfg operation ts st0) + 1\<rparr>)"
    by (rule attempt_failed)
  then show ?case
    using ih by (simp add: after_attempts_snoc on_failure_def)
qed

lemma call_open_in_cooldown:
  "circuit st = Open \<Longrightarrow> now < last_failure st + cooldown_seconds cfg \<Longrightarrow>
     call cfg engine_id operation now st = (Inl Circuit_open, st)"
  by (simp add: call_def)

lemma attempts_first_success:
  "operation (invocations st) = Returned v \<Longrightarrow>
     attempts r i cfg engine_id operation now st =
       (Inr v, on_success (st\<lparr>invocations := invocations st + 1\<rparr>))"
  by (cases r) (simp_all add: attempt_def)

lemma call_probe_success:
  "circuit st = Open \<Longrightarrow> last_failure st + cooldown_seconds cfg \<le> now \<Longrightarrow>
   operation (invocations st) = Returned v \<Longrightarrow>
     call cfg engine_id operation now st =
       (Inr v, st\<lparr>circuit := Closed, failure_count := 0, invocations := invocations st + 1\<rparr>)"
  by (simp add: call_def attempts_first_success on_success_def)

lemma call_closed_success:
  "circuit st = Closed \<Longrightarrow> operation (invocations st) = Returned v \<Longrightarrow>
     call cfg engine_id operation now st =
       (Inr v, st\<lparr>circuit := Closed, failure_count := 0, invocations := invocations st + 1\<rparr>)"
  by (simp add: call_def attempts_first_success on_success_def)

text \<open>
  Claim C3. For every external engine, once the engine has failed N consecutive times
  (N the configured threshold), the next call fails immediately with a
  \<open>circuit_open\<close> external error and the engine operation is never invoked; after the
  cool-down window elapses and one probe succeeds, the circuit returns to closed and
  subsequent calls succeed normally. Here \<open>st0\<close> is a closed circuit with no failure
  counted, \<open>ts\<close> are the times of at least N invocations that all fail, the next call
  comes at \<open>now\<close> within the cool-down, the probe at \<open>later\<close> after it, and a further
  call at any time \<open>t\<close>.
\<close>

theorem circuit_breaker_trips_and_recovers:
  fixes cfg :: caller_config and operation :: "nat \<Rightarrow> 'a outcome"
  assumes threshold: "0 < failure_threshold cfg" "failure_threshold cfg \<le> length ts"
    and start: "circuit st0 = Closed" "failure_count st0 = 0"
    and failures: "\<forall>k < length ts. is_failed (operation (invocations st0 + k))"
    and tripped: "st = after_attempts cfg operation ts st0"
    and early: "now < last ts + cooldown_seconds cfg"
    and later: "last ts + cooldown_seconds cfg \<le> later"
    and probe: "operation (invocations st) = Returned v"
    and recovered: "st' = snd (call cfg engine_id operation later st)"
    and subsequent: "operation (invocations st') = Returned v'"
  shows "call cfg engine_id operation now st = (Inl Circuit_open, st)
       \<and> fst (call cfg engine_id operation later st) = Inr v
       \<and> circuit st' = Closed \<and> failure_count st' = 0
       \<and> fst (call cfg engine_id operation t st') = Inr v'
       \<and> circuit (snd (call cfg engine_id operation t st')) = Closed"
proof -
  have ne: "ts \<noteq> []" using threshold by auto
  have st: "circuit st = Open" "last_failure st = last ts"
    using consecutive_failures [OF start threshold(1) failures] threshold(2) ne
    by (simp_all add: tripped)
  have 1: "call cfg engine_id operation now st = (Inl Circuit_open, st)"
    using st early by (simp add: call_open_in_cooldown)
  have 2: "call cfg engine_id operation later st =
       (Inr v, st\<lparr>circuit := Closed, failure_count := 0, invocations := invocations st + 1\<rparr>)"
    using st later probe by (simp add: call_probe_success)
  then have st': "circuit st' = Closed" "failure_count st' = 0"
    by (simp_all add: recovered)
  have 3: "call cfg engine_id operation t st' =
       (Inr v', st'\<lparr>circuit := Closed, failure_count := 0, invocations := invocations st' + 1\<rparr>)"
    using st'(1) subsequent by (rule call_closed_success)
  show ?thesis using 1 2 3 st' by simp
qed

text \<open>
  Three failures at seconds 10, 11 and 13 open the circuit: a call at second 20 is
  refused and leaves the three invocations at three; the probe at second 43 is the
  fourth invocation and closes the circuit; the call after it succeeds.
\<close>

lemma example_tripped:
  "after_attempts example_config example_operation [10, 11, 13] initial_state =
     \<lparr>circuit = Open, failure_count = 3, last_failure = 13, invocations = 3\<rparr>"
  by (simp add: after_attempts_def attempt_def on_failure_def example_config_def
        example_operation_def initial_state_def)

lemma example_probe:
  "call example_config ''transcription'' example_operation 43
     \<lparr>circuit = Open, failure_count = 3, last_failure = 13, invocations = 3\<rparr> =
   (Inr ''hello world'',
    \<lparr>circuit = Closed, failure_count = 0, last_failure = 13, invocations = 4\<rparr>)"
  by (simp add: call_def attempt_def on_success_def example_config_def example_operation_def)

theorem circuit_breaker_trips_and_recovers_witness:
  "0 < failure_threshold example_config
   \<and> failure_threshold example_config \<le> length [10, 11, 13 :: nat]
   \<and> circuit initial_state = Closed \<and> failure_count initial_state = 0
   \<and> is_failed (example_operation (invocations initial_state + 0))
   \<and> is_failed (example_operation (invocations initial_state + 1))
   \<and> is_failed (example_operation (invocations initial_state + 2))
   \<and> call example_config ''transcription'' example_operation 20
        \<lparr>circuit = Open, failure_count = 3, last_failure = 13, invocations = 3\<rparr>
       = (Inl Circuit_open,
          \<lparr>circuit = Open, failure_count = 3, last_failure = 13, invocations = 3\<rparr>)
   \<and> fst (call example_config ''transcription'' example_operation 43
        \<lparr>circuit = Open, failure_count = 3, last_failure = 13, invocations = 3\<rparr>)
       = Inr ''hello world''
   \<and> fst (call example_config ''transcription'' example_operation 50
        \<lparr>circuit = Closed, failure_count = 0, last_failure = 13, invocations = 4\<rparr>)
       = Inr ''hello world''"
proof -
  have h: "0 < failure_threshold example_config"
      "failure_threshold example_config \<le> length [10, 11, 13 :: nat]"
      "circuit initial_state = Closed" "failure_count initial_state = 0"
      "\<forall>k < length [10, 11, 13 :: nat].
          is_failed (example_operation (invocations initial_state + k))"
    by (simp_all add: example_config_def initial_state_def example_operation_def)
  have tripped:
    "\<lparr>circuit = Open, failure_count = 3, last_failure = 13, invocations = 3\<rparr> =
       after_attempts example_config example_operation [10, 11, 13] initial_state"
    by (simp add: example_tripped)
  have early: "20 < last [10, 11, 13 :: nat] + cooldown_seconds example_config"
    and later: "last [10, 11, 13 :: nat] + cooldown_seconds example_config \<le> 43"
    by (simp_all add: example_config_def)
  have probe:
    "example_operation
       (invocations \<lparr>circuit = Open, failure_count = 3, last_failure = 13, invocations = 3\<rparr>)
     = Returned ''hello world''"
    by (simp add: example_operation_def)
  have recovered:
    "\<lparr>circuit = Closed, failure_count = 0, last_failure = 13, invocations = 4\<rparr> =
       snd (call example_config ''transcription'' example_operation 43
              \<lparr>circuit = Open, failure_count = 3, last_failure = 13, invocations = 3\<rparr>)"
    by (simp add: example_probe)
  have subsequent:
    "example_operation
       (invocations \<lparr>circuit = Closed, failure_count = 0, last_failure = 13, invocations = 4\<rparr>)
     = Returned ''hello world''"
    by (simp add: example_operation_def)
  have failing:
    "is_failed (example_operation (invocations initial_state + 0))"
    "is_failed (example_operation (invocations initial_state + 1))"
    "is_failed (example_operation (invocations initial_state + 2))"
    by (simp_all add: initial_state_def example_operation_def)
  show ?thesis
    using h(1-4) failing circuit_breaker_trips_and_recovers
            [OF h tripped early later probe recovered subsequent, of 50]
    by simp
qed

end
